theory Spec2Isabelle
  imports Main
begin

section \<open>Data model\<close>

text \<open>
  A row of the \<open>messages\<close> table (\<open>models.Message\<close>): an integer primary key and two
  string columns.  Strings are their UTF-8 byte sequences, so \<open>encode('utf-8')\<close> and
  \<open>decode('utf-8')\<close> are the identity.
\<close>

record Message =
  msg_id :: int
  msg_content :: string
  msg_response :: string

text \<open>
  The exceptions that leave a request handler: an error of the Redis client, an error of
  the OpenAI client, and the \<open>HTTPException\<close> raised by the handlers themselves.
\<close>

datatype error =
    RedisError
  | OpenAIError
  | HTTPException nat string

text \<open>
  The Redis server as the handlers see it: every key holds a value and the time (in
  seconds) at which it expires.
\<close>

type_synonym redis = "string \<rightharpoonup> (string \<times> nat)"

text \<open>
  The state the handlers work on: the rows of the table in insertion order, the
  autoincrement counter of the primary key, the contents of the Redis server, and the log
  of the prompts sent to the generator (kept to count its invocations).
\<close>

record world =
  messages :: "Message list"
  next_id :: int
  redis_store :: redis
  generated :: "string list"

text \<open>
  What a request meets outside the process: the completion returned by the OpenAI client
  for a prompt (or its failure), whether the Redis server answers the \<open>GET\<close> and the
  \<open>SETEX\<close> of the request, and the times at which the two commands reach it.
\<close>

record env =
  chat_completion :: "string \<Rightarrow> error + string"
  get_reachable :: bool
  setex_reachable :: bool
  get_time :: nat
  setex_time :: nat

section \<open>The Redis client\<close>

text \<open>
  \<open>redis_client.get(key)\<close>: the value of a key that is present and has not expired,
  \<open>None\<close> otherwise; a connection error when the server is unreachable.  A key set
  to expire at a time is gone from that time on, as the server's own expiry has it.
\<close>

definition redis_get :: "bool \<Rightarrow> nat \<Rightarrow> string \<Rightarrow> redis \<Rightarrow> error + string option" where
  "redis_get reachable now key store =
     (if \<not> reachable then Inl RedisError
      else case store key of
             None \<Rightarrow> Inr None
           | Some (v, expires_at) \<Rightarrow> if now < expires_at then Inr (Some v) else Inr None)"

text \<open>
  \<open>redis_client.setex(key, seconds, value)\<close>: stores the value under the key,
  overwriting what was there, to expire \<open>seconds\<close> after now.
\<close>

definition redis_setex :: "bool \<Rightarrow> nat \<Rightarrow> string \<Rightarrow> nat \<Rightarrow> string \<Rightarrow> redis \<Rightarrow> error + redis" where
  "redis_setex reachable now key seconds v store =
     (if \<not> reachable then Inl RedisError
      else Inr (store(key \<mapsto> (v, now + seconds))))"

section \<open>Helper functions of \<open>main.py\<close>\<close>

text \<open>
  \<open>str.strip()\<close> on the ASCII whitespace characters (space, tab, line feed, vertical
  tab, form feed, carriage return and the four separators \<open>0x1c\<close> to \<open>0x1f\<close>).
  Whitespace beyond ASCII, which Python strips too, is left in place here; no property
  below depends on it.
\<close>

definition isspace :: "char \<Rightarrow> bool" where
  "isspace c =
     (let n = (of_char c :: nat) in n = 32 \<or> (9 \<le> n \<and> n \<le> 13) \<or> (28 \<le> n \<and> n \<le> 31))"

definition strip :: "string \<Rightarrow> string" where
  "strip s = rev (dropWhile isspace (rev (dropWhile isspace s)))"

text \<open>
  \<open>generate_response\<close>: one call of the chat completion endpoint; the content of the
  first choice, stripped.  An exception of the client leaves the function as it is.
\<close>

definition generate_response :: "env \<Rightarrow> string \<Rightarrow> error + string" where
  "generate_response e message =
     (case chat_completion e message of
        Inl err \<Rightarrow> Inl err
      | Inr c \<Rightarrow> Inr (strip c))"

text \<open>
  \<open>generate_content_hash\<close>: the hexadecimal SHA-256 digest of the content.  The digest
  function of \<open>hashlib\<close> is the parameter \<open>sha256\<close>.
\<close>

definition generate_content_hash :: "(string \<Rightarrow> string) \<Rightarrow> string \<Rightarrow> string" where
  "generate_content_hash sha256 content = sha256 content"

definition cache_key :: "(string \<Rightarrow> string) \<Rightarrow> string \<Rightarrow> string" where
  "cache_key sha256 content = ''message:'' @ generate_content_hash sha256 content"

text \<open>\<open>cache_response\<close>: \<open>SETEX\<close> of the response under the key of the content, for 300 seconds.\<close>

definition cache_response ::
  "(string \<Rightarrow> string) \<Rightarrow> bool \<Rightarrow> nat \<Rightarrow> string \<Rightarrow> string \<Rightarrow> redis \<Rightarrow> error + redis" where
  "cache_response sha256 reachable now content response store =
     redis_setex reachable now (cache_key sha256 content) 300 response store"

text \<open>
  \<open>check_cache_for_content\<close>: \<open>GET\<close> of the key of the content.  The test
  \<open>if cached_response:\<close> is Python's truth value of a \<open>bytes\<close> object or \<open>None\<close>: false
  for \<open>None\<close> and for the empty byte string.
\<close>

definition check_cache_for_content ::
  "(string \<Rightarrow> string) \<Rightarrow> bool \<Rightarrow> nat \<Rightarrow> string \<Rightarrow> redis \<Rightarrow> error + string option" where
  "check_cache_for_content sha256 reachable now content store =
     (case redis_get reachable now (cache_key sha256 content) store of
        Inl err \<Rightarrow> Inl err
      | Inr cached_response \<Rightarrow>
          (case cached_response of
             None \<Rightarrow> Inr None
           | Some b \<Rightarrow> if b \<noteq> [] then Inr (Some b) else Inr None))"

section \<open>The \<open>crud\<close> module\<close>

text \<open>
  Modelled from the spec: \<open>crud.create_message\<close>; the module \<open>crud\<close> is imported by
  \<open>main.py\<close> and its code is missing.  The spec's \<open>HistoryStore.append\<close> assigns the next
  unused id, persists the record and returns it.
\<close>

definition create_message :: "string \<Rightarrow> string \<Rightarrow> world \<Rightarrow> Message \<times> world" where
  "create_message content response w =
     (let db_message = \<lparr>msg_id = next_id w, msg_content = content, msg_response = response\<rparr>
      in (db_message, w\<lparr>messages := messages w @ [db_message], next_id := next_id w + 1\<rparr>))"


text \<open>
  Modelled from the spec: \<open>crud.update_message\<close>, absent like the rest of the module.  The
  spec's \<open>HistoryStore.update\<close> replaces content and response of the existing record in
  place and returns it; it returns nothing when no record has the id.
\<close>

definition update_message :: "int \<Rightarrow> string \<Rightarrow> string \<Rightarrow> world \<Rightarrow> Message option \<times> world" where
  "update_message message_id new_content new_response w =
     (case find (\<lambda>m. msg_id m = message_id) (messages w) of
        None \<Rightarrow> (None, w)
      | Some m \<Rightarrow>
          (let m' = m\<lparr>msg_content := new_content, msg_response := new_response\<rparr>
           in (Some m',
               w\<lparr>messages := map (\<lambda>x. if msg_id x = message_id then m' else x) (messages w)\<rparr>)))"

section \<open>The endpoints\<close>

text \<open>
  \<open>POST /messages/\<close>.  The second test \<open>if cached_response:\<close> is the truth value of a
  \<open>str\<close> or \<open>None\<close>.  An exception leaves the handler with the state reached so far.
\<close>

definition send_message ::
  "(string \<Rightarrow> string) \<Rightarrow> env \<Rightarrow> string \<Rightarrow> world \<Rightarrow> (error + Message) \<times> world" where
  "send_message sha256 e content w =
     (case check_cache_for_content sha256 (get_reachable e) (get_time e) content (redis_store w) of
        Inl err \<Rightarrow> (Inl err, w)
      | Inr cached_response \<Rightarrow>
          (if cached_response \<noteq> None \<and> cached_response \<noteq> Some [] then
             (let (db_message, w1) = create_message content (the cached_response) w
              in (Inr \<lparr>msg_id = msg_id db_message, msg_content = content,
                        msg_response = the cached_response\<rparr>, w1))
           else
             (let w0 = w\<lparr>generated := generated w @ [content]\<rparr> in
              case generate_response e content of
                Inl err \<Rightarrow> (Inl err, w0)
              | Inr response \<Rightarrow>
                  (let (db_message, w1) = create_message content response w0 in
                   case cache_response sha256 (setex_reachable e) (setex_time e)
                          content response (redis_store w1) of
                     Inl err \<Rightarrow> (Inl err, w1)
                   | Inr store' \<Rightarrow>
                       (Inr \<lparr>msg_id = msg_id db_message, msg_content = msg_content db_message,
                              msg_response = msg_response db_message\<rparr>,
                        w1\<lparr>redis_store := store'\<rparr>)))))"


text \<open>
  \<open>PUT /messages/{message_id}\<close>: the response is generated first, then the row is
  updated; a missing row is a 404.
\<close>

definition edit_message :: "env \<Rightarrow> int \<Rightarrow> string \<Rightarrow> world \<Rightarrow> (error + Message) \<times> world" where
  "edit_message e message_id new_content w =
     (let w0 = w\<lparr>generated := generated w @ [new_content]\<rparr> in
      case generate_response e new_content of
        Inl err \<Rightarrow> (Inl err, w0)
      | Inr response \<Rightarrow>
          (case update_message message_id new_content response w0 of
             (None, w1) \<Rightarrow> (Inl (HTTPException 404 ''Message not found''), w1)
           | (Some message, w1) \<Rightarrow> (Inr message, w1)))"

text \<open>Python's \<open>str\<close> of an integer, as the f-string of the delete endpoint formats it.\<close>

fun str_nat :: "nat \<Rightarrow> string" where
  "str_nat n =
     (if n < 10 then [''0123456789'' ! n]
      else str_nat (n div 10) @ [''0123456789'' ! (n mod 10)])"

definition str_int :: "int \<Rightarrow> string" where
  "str_int i = (if i < 0 then CHR ''-'' # str_nat (nat (- i)) else str_nat (nat i))"

text \<open>\<open>db.delete(message)\<close>: the row with the primary key of the object goes.\<close>

definition db_delete :: "Message \<Rightarrow> Message list \<Rightarrow> Message list" where
  "db_delete message rows = filter (\<lambda>r. msg_id r \<noteq> msg_id message) rows"

text \<open>The loop \<open>for message in messages_to_delete: db.delete(message)\<close>.\<close>

fun delete_all :: "Message list \<Rightarrow> Message list \<Rightarrow> Message list" where
  "delete_all [] rows = rows"
| "delete_all (message # rest) rows = delete_all rest (db_delete message rows)"

text \<open>\<open>DELETE /messages/{message_id}\<close>.\<close>

definition delete_message_and_following :: "int \<Rightarrow> world \<Rightarrow> (error + string) \<times> world" where
  "delete_message_and_following message_id w =
     (let messages_to_delete = filter (\<lambda>m. msg_id m \<ge> message_id) (messages w) in
      if messages_to_delete = [] then (Inl (HTTPException 404 ''Message not found''), w)
      else
        (Inr (''Deleted '' @ str_int (int (length messages_to_delete))
               @ '' messages starting from ID '' @ str_int message_id),
         w\<lparr>messages := delete_all messages_to_delete (messages w)\<rparr>))"

section \<open>Example states and environments\<close>

text \<open>
  The store before the first request, and a store holding the records with ids 1 to 5.
\<close>

definition empty_world :: world where
  "empty_world = \<lparr>messages = [], next_id = 1, redis_store = Map.empty, generated = []\<rparr>"

definition row :: "int \<Rightarrow> Message" where
  "row i = \<lparr>msg_id = i, msg_content = ''question'', msg_response = ''answer''\<rparr>"

definition five_world :: world where
  "five_world = \<lparr>messages = [row 1, row 2, row 3, row 4, row 5], next_id = 6,
                   redis_store = Map.empty, generated = []\<rparr>"

text \<open>
  Three environments whose Redis server is reachable: a generator that answers every
  prompt, one whose completion is whitespace only, and one that fails.
\<close>

definition echo_env :: env where
  "echo_env = \<lparr>chat_completion = (\<lambda>prompt. Inr (''Re: '' @ prompt)),
                get_reachable = True, setex_reachable = True, get_time = 10, setex_time = 12\<rparr>"

definition blank_env :: env where
  "blank_env = echo_env\<lparr>chat_completion := (\<lambda>prompt. Inr ''  '')\<rparr>"

definition failing_env :: env where
  "failing_env = echo_env\<lparr>chat_completion := (\<lambda>prompt. Inl OpenAIError)\<rparr>"

text \<open>
  The states reached from the empty store by one \<open>POST\<close> of \<open>Hello\<close>, with the answering
  generator and with the one that returns whitespace.
\<close>

definition hello_world :: world where
  "hello_world = snd (send_message id echo_env ''Hello'' empty_world)"

definition blank_world :: world where
  "blank_world = snd (send_message id blank_env ''Hello'' empty_world)"

lemmas example_defs = empty_world_def echo_env_def blank_env_def failing_env_def

lemmas handler_defs = send_message_def check_cache_for_content_def cache_response_def
  redis_get_def redis_setex_def cache_key_def generate_content_hash_def generate_response_def
  strip_def isspace_def create_message_def Let_def

section \<open>What the handlers compute\<close>

lemma check_cache_hit:
  "redis_get reachable now (cache_key sha256 content) store = Inr (Some R) \<Longrightarrow> R \<noteq> [] \<Longrightarrow>
   check_cache_for_content sha256 reachable now content store = Inr (Some R)"
  by (simp add: check_cache_for_content_def)

lemma check_cache_miss:
  "redis_get reachable now (cache_key sha256 content) store = Inr None \<Longrightarrow>
   check_cache_for_content sha256 reachable now content store = Inr None"
  by (simp add: check_cache_for_content_def)

lemma check_cache_never_empty:
  "check_cache_for_content sha256 reachable now content store \<noteq> Inr (Some [])"
  by (simp add: check_cache_for_content_def split: sum.splits option.splits)

text \<open>
  The two paths of \<open>send_message\<close> after the cache lookup has answered.
\<close>

lemma send_message_on_miss:
  assumes "check_cache_for_content sha256 (get_reachable e) (get_time e) content (redis_store w) = Inr None"
  shows "send_message sha256 e content w =
     (case generate_response e content of
        Inl err \<Rightarrow> (Inl err, w\<lparr>generated := generated w @ [content]\<rparr>)
      | Inr response \<Rightarrow>
          (if setex_reachable e
           then (Inr \<lparr>msg_id = next_id w, msg_content = content, msg_response = response\<rparr>,
                 w\<lparr>messages := messages w @ [\<lparr>msg_id = next_id w, msg_content = content, msg_response = response\<rparr>],
                   next_id := next_id w + 1,
                   redis_store := (redis_store w)(cache_key sha256 content \<mapsto> (response, setex_time e + 300)),
                   generated := generated w @ [content]\<rparr>)
           else (Inl RedisError,
                 w\<lparr>messages := messages w @ [\<lparr>msg_id = next_id w, msg_content = content, msg_response = response\<rparr>],
                   next_id := next_id w + 1,
                   generated := generated w @ [content]\<rparr>)))"
  using assms
  by (simp add: send_message_def create_message_def cache_response_def redis_setex_def Let_def
           split: sum.splits)

lemma send_message_on_hit:
  assumes "check_cache_for_content sha256 (get_reachable e) (get_time e) content (redis_store w) = Inr (Some R)"
  shows "send_message sha256 e content w =
           (Inr \<lparr>msg_id = next_id w, msg_content = content, msg_response = R\<rparr>,
            w\<lparr>messages := messages w @ [\<lparr>msg_id = next_id w, msg_content = content, msg_response = R\<rparr>],
              next_id := next_id w + 1\<rparr>)"
proof -
  from assms have "R \<noteq> []"
    using check_cache_never_empty by metis
  with assms show ?thesis
    by (simp add: send_message_def create_message_def Let_def)
qed

text \<open>
  The deletion loop removes the rows whose id is among those selected, so after
  selecting by \<open>id >= message_id\<close> exactly the rows with a smaller id stay.
\<close>

lemma delete_all_filter:
  "delete_all ds rows = filter (\<lambda>r. msg_id r \<notin> msg_id ` set ds) rows"
  by (induction ds arbitrary: rows) (auto simp: db_delete_def intro: filter_cong)

lemma delete_all_from:
  "delete_all (filter (\<lambda>m. i \<le> msg_id m) rows) rows = filter (\<lambda>m. msg_id m < i) rows"
  unfolding delete_all_filter by (rule filter_cong) auto

lemma delete_message_and_following_eq:
  "delete_message_and_following message_id w =
     (if filter (\<lambda>m. message_id \<le> msg_id m) (messages w) = []
      then (Inl (HTTPException 404 ''Message not found''), w)
      else (Inr (''Deleted '' @ str_int (int (length (filter (\<lambda>m. message_id \<le> msg_id m) (messages w))))
                  @ '' messages starting from ID '' @ str_int message_id),
            w\<lparr>messages := filter (\<lambda>m. msg_id m < message_id) (messages w)\<rparr>))"
  by (simp add: delete_message_and_following_def Let_def delete_all_from)

text \<open>
  \<open>edit_message\<close> in closed form: the generator runs first, then the row is looked up.
\<close>

lemma edit_message_eq:
  "edit_message e message_id new_content w =
     (case generate_response e new_content of
        Inl err \<Rightarrow> (Inl err, w\<lparr>generated := generated w @ [new_content]\<rparr>)
      | Inr response \<Rightarrow>
          (if message_id \<in> set (map msg_id (messages w))
           then (Inr \<lparr>msg_id = message_id, msg_content = new_content, msg_response = response\<rparr>,
                 w\<lparr>messages := map (\<lambda>x. if msg_id x = message_id
                                       then \<lparr>msg_id = message_id, msg_content = new_content,
                                             msg_response = response\<rparr>
                                       else x) (messages w),
                   generated := generated w @ [new_content]\<rparr>)
           else (Inl (HTTPException 404 ''Message not found''),
                 w\<lparr>generated := generated w @ [new_content]\<rparr>)))"
proof (cases "find (\<lambda>m. msg_id m = message_id) (messages w)")
  case None
  then have "message_id \<notin> set (map msg_id (messages w))"
    by (auto simp: find_None_iff)
  with None show ?thesis
    by (simp add: edit_message_def update_message_def Let_def split: sum.splits)
next
  case (Some m)
  then have m: "msg_id m = message_id" "m \<in> set (messages w)"
    by (auto simp: find_Some_iff)
  then have "message_id \<in> set (map msg_id (messages w))"
    by force
  moreover have "m\<lparr>msg_content := c, msg_response := r\<rparr>
                  = \<lparr>msg_id = message_id, msg_content = c, msg_response = r\<rparr>" for c r
    using m(1) by simp
  ultimately show ?thesis
    using Some by (simp add: edit_message_def update_message_def Let_def split: sum.splits)
qed

text \<open>
  The two example states, evaluated.
\<close>

lemma hello_world_eq:
  "hello_world = \<lparr>messages = [\<lparr>msg_id = 1, msg_content = ''Hello'', msg_response = ''Re: Hello''\<rparr>],
                   next_id = 2,
                   redis_store = [''message:Hello'' \<mapsto> (''Re: Hello'', 312)],
                   generated = [''Hello'']\<rparr>"
  by (simp add: hello_world_def handler_defs example_defs)

lemma blank_world_eq:
  "blank_world = \<lparr>messages = [\<lparr>msg_id = 1, msg_content = ''Hello'', msg_response = []\<rparr>],
                   next_id = 2,
                   redis_store = [''message:Hello'' \<mapsto> ([], 312)],
                   generated = [''Hello'']\<rparr>"
  by (simp add: blank_world_def handler_defs example_defs)

section \<open>Creating a message\<close>

text \<open>
  The hit path: when the cache \<open>GET\<close> returns a non-empty response \<open>R\<close> for the
  content, \<open>send_message\<close> returns a record with that content and response \<open>R\<close>,
  appends it to the table under the next id, leaves the cache as it was and does not
  invoke the generator.
\<close>

lemma send_message_cache_hit:
  assumes "redis_get (get_reachable e) (get_time e) (cache_key sha256 content) (redis_store w)
             = Inr (Some R)"
    and "R \<noteq> []"
  shows "send_message sha256 e content w =
           (Inr \<lparr>msg_id = next_id w, msg_content = content, msg_response = R\<rparr>,
            w\<lparr>messages := messages w @ [\<lparr>msg_id = next_id w, msg_content = content, msg_response = R\<rparr>],
              next_id := next_id w + 1\<rparr>)
         \<and> generated (snd (send_message sha256 e content w)) = generated w"
  using assms by (simp add: send_message_on_hit check_cache_hit)

text \<open>
  The end-to-end scenario: \<open>Hello\<close> was answered and cached; a second \<open>Hello\<close>, with a
  generator that would fail if called, is served from the cache as record 2.
\<close>

lemma send_message_cache_hit_example:
  "redis_get (get_reachable (failing_env\<lparr>get_time := 20\<rparr>)) (get_time (failing_env\<lparr>get_time := 20\<rparr>))
      (cache_key id ''Hello'') (redis_store hello_world) = Inr (Some ''Re: Hello'')
   \<and> ''Re: Hello'' \<noteq> []
   \<and> send_message id (failing_env\<lparr>get_time := 20\<rparr>) ''Hello'' hello_world =
       (Inr \<lparr>msg_id = 2, msg_content = ''Hello'', msg_response = ''Re: Hello''\<rparr>,
        hello_world\<lparr>messages := [\<lparr>msg_id = 1, msg_content = ''Hello'', msg_response = ''Re: Hello''\<rparr>,
                                 \<lparr>msg_id = 2, msg_content = ''Hello'', msg_response = ''Re: Hello''\<rparr>],
                    next_id := 3\<rparr>)
   \<and> generated (snd (send_message id (failing_env\<lparr>get_time := 20\<rparr>) ''Hello'' hello_world)) = [''Hello'']"
proof -
  have held: "redis_get (get_reachable (failing_env\<lparr>get_time := 20\<rparr>)) (get_time (failing_env\<lparr>get_time := 20\<rparr>))
      (cache_key id ''Hello'') (redis_store hello_world) = Inr (Some ''Re: Hello'')"
    by (simp add: hello_world_eq example_defs redis_get_def cache_key_def generate_content_hash_def)
  have nonempty: "''Re: Hello'' \<noteq> []" by simp
  from send_message_cache_hit [OF held nonempty] held show ?thesis
    by (simp add: hello_world_eq)
qed

text \<open>
  C1, a cached response is served without the generator, evaluated at a live entry that
  holds the empty string.  After a whitespace-only completion for \<open>Hello\<close> the cache
  holds \<open>''\<close> under its key until time 312.  At time 20 the \<open>GET\<close> returns that entry,
  yet \<open>check_cache_for_content\<close> reports nothing found, and \<open>send_message\<close> invokes the
  generator, appends a record with the new response instead of the cached one, and
  overwrites the entry.
\<close>

theorem send_message_empty_entry_regenerates:
  "redis_store blank_world (cache_key id ''Hello'') = Some ([], 312)
   \<and> redis_get True 20 (cache_key id ''Hello'') (redis_store blank_world) = Inr (Some [])
   \<and> check_cache_for_content id True 20 ''Hello'' (redis_store blank_world) = Inr None
   \<and> send_message id (echo_env\<lparr>get_time := 20, setex_time := 22\<rparr>) ''Hello'' blank_world
       = (Inr \<lparr>msg_id = 2, msg_content = ''Hello'', msg_response = ''Re: Hello''\<rparr>,
          \<lparr>messages = [\<lparr>msg_id = 1, msg_content = ''Hello'', msg_response = []\<rparr>,
                       \<lparr>msg_id = 2, msg_content = ''Hello'', msg_response = ''Re: Hello''\<rparr>],
           next_id = 3,
           redis_store = [''message:Hello'' \<mapsto> (''Re: Hello'', 322)],
           generated = [''Hello'', ''Hello'']\<rparr>)"
  by (simp add: blank_world_eq handler_defs example_defs)

text \<open>
  The miss path: when the cache \<open>GET\<close> returns nothing for the content,
  \<open>send_message\<close> invokes the generator exactly once; when the generator returns a
  response and the \<open>SETEX\<close> succeeds, the record carrying that response is appended and
  the cache holds the response under the key of the content until 300 seconds after the
  write; for a non-empty response, a following \<open>send_message\<close> of the same content
  whose \<open>GET\<close> succeeds before that time does not invoke the generator again.
\<close>

lemma send_message_cache_miss:
  assumes "redis_get (get_reachable e) (get_time e) (cache_key sha256 content) (redis_store w)
             = Inr None"
  shows "generated (snd (send_message sha256 e content w)) = generated w @ [content]
     \<and> (generate_response e content = Inr response \<and> setex_reachable e \<longrightarrow>
          send_message sha256 e content w =
            (Inr \<lparr>msg_id = next_id w, msg_content = content, msg_response = response\<rparr>,
             w\<lparr>messages := messages w @ [\<lparr>msg_id = next_id w, msg_content = content, msg_response = response\<rparr>],
               next_id := next_id w + 1,
               redis_store := (redis_store w)(cache_key sha256 content \<mapsto> (response, setex_time e + 300)),
               generated := generated w @ [content]\<rparr>)
          \<and> (response \<noteq> [] \<and> get_reachable e' \<and> get_time e' < setex_time e + 300 \<longrightarrow>
               generated (snd (send_message sha256 e' content (snd (send_message sha256 e content w))))
                 = generated (snd (send_message sha256 e content w))))"
proof -
  note miss = send_message_on_miss [OF check_cache_miss [OF assms]]
  have once: "generated (snd (send_message sha256 e content w)) = generated w @ [content]"
    by (simp add: miss split: sum.splits)
  have rest: "send_message sha256 e content w =
            (Inr \<lparr>msg_id = next_id w, msg_content = content, msg_response = response\<rparr>,
             w\<lparr>messages := messages w @ [\<lparr>msg_id = next_id w, msg_content = content, msg_response = response\<rparr>],
               next_id := next_id w + 1,
               redis_store := (redis_store w)(cache_key sha256 content \<mapsto> (response, setex_time e + 300)),
               generated := generated w @ [content]\<rparr>)
          \<and> (response \<noteq> [] \<and> get_reachable e' \<and> get_time e' < setex_time e + 300 \<longrightarrow>
               generated (snd (send_message sha256 e' content (snd (send_message sha256 e content w))))
                 = generated (snd (send_message sha256 e content w)))"
    if gen: "generate_response e content = Inr response" and up: "setex_reachable e"
  proof (intro conjI impI)
    show first: "send_message sha256 e content w =
            (Inr \<lparr>msg_id = next_id w, msg_content = content, msg_response = response\<rparr>,
             w\<lparr>messages := messages w @ [\<lparr>msg_id = next_id w, msg_content = content, msg_response = response\<rparr>],
               next_id := next_id w + 1,
               redis_store := (redis_store w)(cache_key sha256 content \<mapsto> (response, setex_time e + 300)),
               generated := generated w @ [content]\<rparr>)"
      by (simp add: miss gen up)
    assume again: "response \<noteq> [] \<and> get_reachable e' \<and> get_time e' < setex_time e + 300"
    let ?w' = "snd (send_message sha256 e content w)"
    have "redis_get (get_reachable e') (get_time e') (cache_key sha256 content) (redis_store ?w')
            = Inr (Some response)"
      using again by (simp add: first redis_get_def)
    with again have "check_cache_for_content sha256 (get_reachable e') (get_time e') content (redis_store ?w')
            = Inr (Some response)"
      by (simp add: check_cache_hit)
    then show "generated (snd (send_message sha256 e' content ?w')) = generated ?w'"
      by (simp add: send_message_on_hit)
  qed
  from once rest show ?thesis by blast
qed

lemma send_message_cache_miss_example:
  "redis_get (get_reachable echo_env) (get_time echo_env) (cache_key id ''Hello'') (redis_store empty_world)
     = Inr None
   \<and> generate_response echo_env ''Hello'' = Inr ''Re: Hello'' \<and> setex_reachable echo_env
   \<and> ''Re: Hello'' \<noteq> [] \<and> get_reachable (failing_env\<lparr>get_time := 311\<rparr>)
   \<and> get_time (failing_env\<lparr>get_time := 311\<rparr>) < setex_time echo_env + 300
   \<and> send_message id echo_env ''Hello'' empty_world =
        (Inr \<lparr>msg_id = 1, msg_content = ''Hello'', msg_response = ''Re: Hello''\<rparr>, hello_world)
   \<and> generated (snd (send_message id (failing_env\<lparr>get_time := 311\<rparr>) ''Hello''
                       (snd (send_message id echo_env ''Hello'' empty_world)))) = [''Hello'']"
proof -
  have absent: "redis_get (get_reachable echo_env) (get_time echo_env) (cache_key id ''Hello'')
                  (redis_store empty_world) = Inr None"
    by (simp add: example_defs redis_get_def)
  have gen: "generate_response echo_env ''Hello'' = Inr ''Re: Hello''"
    by (simp add: example_defs generate_response_def strip_def isspace_def)
  have side: "setex_reachable echo_env \<and> ''Re: Hello'' \<noteq> [] \<and> get_reachable (failing_env\<lparr>get_time := 311\<rparr>)
      \<and> get_time (failing_env\<lparr>get_time := 311\<rparr>) < setex_time echo_env + 300"
    by (simp add: example_defs)
  from send_message_cache_miss [OF absent, of "''Re: Hello''" "failing_env\<lparr>get_time := 311\<rparr>"] gen side
  have again: "generated (snd (send_message id (failing_env\<lparr>get_time := 311\<rparr>) ''Hello''
                       (snd (send_message id echo_env ''Hello'' empty_world))))
                = generated (snd (send_message id echo_env ''Hello'' empty_world))"
    by blast
  have first: "send_message id echo_env ''Hello'' empty_world =
        (Inr \<lparr>msg_id = 1, msg_content = ''Hello'', msg_response = ''Re: Hello''\<rparr>, hello_world)"
    by (simp add: hello_world_eq) (simp add: handler_defs example_defs)
  from again have "generated (snd (send_message id (failing_env\<lparr>get_time := 311\<rparr>) ''Hello''
                       (snd (send_message id echo_env ''Hello'' empty_world)))) = [''Hello'']"
    by (simp add: first hello_world_eq)
  with absent gen side first show ?thesis
    by simp
qed

text \<open>
  C2, a miss is generated once and cached so that the same content within the 300
  seconds is not generated again, evaluated at a whitespace-only completion.  The cache
  is empty; the first \<open>send_message\<close> of \<open>Hi\<close> invokes the generator once, appends the
  record and writes the stripped response \<open>''\<close> under the key, to expire at 312.  At time
  20 the entry is live, yet the second \<open>send_message\<close> of \<open>Hi\<close> invokes the generator a
  second time.
\<close>

theorem send_message_blank_completion_regenerates:
  "redis_get True 10 (cache_key id ''Hi'') (redis_store empty_world) = Inr None
   \<and> generate_response blank_env ''Hi'' = Inr []
   \<and> send_message id blank_env ''Hi'' empty_world
       = (Inr \<lparr>msg_id = 1, msg_content = ''Hi'', msg_response = []\<rparr>,
          \<lparr>messages = [\<lparr>msg_id = 1, msg_content = ''Hi'', msg_response = []\<rparr>],
           next_id = 2,
           redis_store = [''message:Hi'' \<mapsto> ([], 312)],
           generated = [''Hi'']\<rparr>)
   \<and> (20::nat) < 312
   \<and> redis_get True 20 (cache_key id ''Hi'')
        (redis_store (snd (send_message id blank_env ''Hi'' empty_world))) = Inr (Some [])
   \<and> generated (snd (send_message id (blank_env\<lparr>get_time := 20, setex_time := 22\<rparr>) ''Hi''
                       (snd (send_message id blank_env ''Hi'' empty_world)))) = [''Hi'', ''Hi'']"
  by (simp add: handler_defs example_defs)




text \<open>
  C6: for every \<open>send_message\<close> in which the generator is invoked and fails, the request
  ends in the generator's error, no record is appended, the id counter does not move
  and the cache is unchanged.
\<close>

theorem send_message_generation_failure:
  assumes "generate_response e content = Inl err"
    and "generated (snd (send_message sha256 e content w)) \<noteq> generated w"
  shows "send_message sha256 e content w = (Inl err, w\<lparr>generated := generated w @ [content]\<rparr>)
       \<and> messages (snd (send_message sha256 e content w)) = messages w
       \<and> next_id (snd (send_message sha256 e content w)) = next_id w
       \<and> redis_store (snd (send_message sha256 e content w)) = redis_store w"
proof (cases "check_cache_for_content sha256 (get_reachable e) (get_time e) content (redis_store w)")
  case (Inl rerr)
  then have "send_message sha256 e content w = (Inl rerr, w)"
    by (simp add: send_message_def)
  with assms(2) show ?thesis by simp
next
  case (Inr cached_response)
  show ?thesis
  proof (cases cached_response)
    case None
    with Inr assms(1) show ?thesis
      by (simp add: send_message_on_miss)
  next
    case (Some R)
    with Inr have "generated (snd (send_message sha256 e content w)) = generated w"
      by (simp add: send_message_on_hit)
    with assms(2) show ?thesis by simp
  qed
qed

theorem send_message_generation_failure_witness:
  "generate_response failing_env ''Hello'' = Inl OpenAIError
   \<and> generated (snd (send_message id failing_env ''Hello'' empty_world)) \<noteq> generated empty_world
   \<and> send_message id failing_env ''Hello'' empty_world
       = (Inl OpenAIError, empty_world\<lparr>generated := [''Hello'']\<rparr>)
   \<and> messages (snd (send_message id failing_env ''Hello'' empty_world)) = []
   \<and> redis_store (snd (send_message id failing_env ''Hello'' empty_world)) = Map.empty"
proof -
  have fails: "generate_response failing_env ''Hello'' = Inl OpenAIError"
    by (simp add: example_defs generate_response_def)
  have called: "generated (snd (send_message id failing_env ''Hello'' empty_world)) \<noteq> generated empty_world"
    by (simp add: handler_defs example_defs)
  from send_message_generation_failure [OF fails called] fails called show ?thesis
    by (simp add: empty_world_def)
qed

text \<open>
  C10: for every content whose live, unexpired cache entry holds the empty string, the
  \<open>GET\<close> returns that empty value, \<open>check_cache_for_content\<close> reports a miss, and
  \<open>send_message\<close> invokes the generator.
\<close>

theorem cache_empty_value_is_miss:
  assumes "redis_store w (cache_key sha256 content) = Some ([], expires_at)"
    and "get_time e < expires_at"
    and "get_reachable e"
  shows "redis_get (get_reachable e) (get_time e) (cache_key sha256 content) (redis_store w) = Inr (Some [])
       \<and> check_cache_for_content sha256 (get_reachable e) (get_time e) content (redis_store w) = Inr None
       \<and> generated (snd (send_message sha256 e content w)) = generated w @ [content]"
proof -
  have live: "redis_get (get_reachable e) (get_time e) (cache_key sha256 content) (redis_store w) = Inr (Some [])"
    using assms by (simp add: redis_get_def)
  then have miss: "check_cache_for_content sha256 (get_reachable e) (get_time e) content (redis_store w) = Inr None"
    by (simp add: check_cache_for_content_def)
  then have "generated (snd (send_message sha256 e content w)) = generated w @ [content]"
    by (simp add: send_message_on_miss split: sum.splits)
  with live miss show ?thesis by simp
qed

theorem cache_empty_value_is_miss_witness:
  "redis_store blank_world (cache_key id ''Hello'') = Some ([], 312)
   \<and> get_time (echo_env\<lparr>get_time := 100, setex_time := 101\<rparr>) < 312
   \<and> get_reachable (echo_env\<lparr>get_time := 100, setex_time := 101\<rparr>)
   \<and> check_cache_for_content id (get_reachable (echo_env\<lparr>get_time := 100, setex_time := 101\<rparr>))
        (get_time (echo_env\<lparr>get_time := 100, setex_time := 101\<rparr>)) ''Hello'' (redis_store blank_world) = Inr None
   \<and> generated (snd (send_message id (echo_env\<lparr>get_time := 100, setex_time := 101\<rparr>) ''Hello'' blank_world))
        = [''Hello'', ''Hello'']"
proof -
  have entry: "redis_store blank_world (cache_key id ''Hello'') = Some ([], 312)"
    by (simp add: blank_world_eq cache_key_def generate_content_hash_def)
  have live: "get_time (echo_env\<lparr>get_time := 100, setex_time := 101\<rparr>) < 312"
    and up: "get_reachable (echo_env\<lparr>get_time := 100, setex_time := 101\<rparr>)"
    by (simp_all add: example_defs)
  from cache_empty_value_is_miss [OF entry live up] entry live up show ?thesis
    by (simp add: blank_world_eq)
qed

section \<open>Expiry of cache entries\<close>

text \<open>
  C8: every entry written by \<open>cache_response\<close> at time \<open>T\<close> expires at \<open>T + 300\<close>: no
  \<open>GET\<close> and no cache lookup at a time from \<open>T + 300\<close> on returns a value for its key,
  and every \<open>GET\<close> before that time returns the response.
\<close>

theorem cache_response_ttl:
  assumes "cache_response sha256 reachable T content response store = Inr store'"
  shows "store' (cache_key sha256 content) = Some (response, T + 300)
       \<and> (T + 300 \<le> t \<longrightarrow> redis_get r t (cache_key sha256 content) store' \<noteq> Inr (Some v)
                        \<and> check_cache_for_content sha256 r t content store' \<noteq> Inr (Some v))
       \<and> (t < T + 300 \<longrightarrow> redis_get True t (cache_key sha256 content) store' = Inr (Some response))"
proof -
  from assms have store': "store' = store(cache_key sha256 content \<mapsto> (response, T + 300))"
    by (auto simp: cache_response_def redis_setex_def split: if_splits)
  show ?thesis
    unfolding store' by (simp add: redis_get_def check_cache_for_content_def)
qed

theorem cache_response_ttl_witness:
  "cache_response id True 12 ''Hello'' ''Re: Hello'' Map.empty = Inr [''message:Hello'' \<mapsto> (''Re: Hello'', 312)]
   \<and> (12::nat) + 300 \<le> 312
   \<and> check_cache_for_content id True 312 ''Hello'' [''message:Hello'' \<mapsto> (''Re: Hello'', 312)] \<noteq> Inr (Some ''Re: Hello'')
   \<and> (311::nat) < 12 + 300
   \<and> redis_get True 311 (cache_key id ''Hello'') [''message:Hello'' \<mapsto> (''Re: Hello'', 312)] = Inr (Some ''Re: Hello'')"
proof -
  have put: "cache_response id True 12 ''Hello'' ''Re: Hello'' Map.empty
               = Inr [''message:Hello'' \<mapsto> (''Re: Hello'', 312)]"
    by (simp add: cache_response_def redis_setex_def cache_key_def generate_content_hash_def)
  from cache_response_ttl [OF put, of 312 True "''Re: Hello''"] cache_response_ttl [OF put, of 311]
       put
  show ?thesis by simp
qed

section \<open>Deleting from an id\<close>

text \<open>
  C4: for every id, when some record has an id greater than or equal to it,
  \<open>delete_message_and_following\<close> removes exactly those records, keeps the records with
  smaller ids as they are and reports their number; when there is none it fails with
  404 and changes nothing; a second call with the same id always fails with 404.
\<close>

theorem delete_message_and_following_cascade:
  "(filter (\<lambda>m. message_id \<le> msg_id m) (messages w) \<noteq> [] \<longrightarrow>
      delete_message_and_following message_id w =
        (Inr (''Deleted '' @ str_int (int (length (filter (\<lambda>m. message_id \<le> msg_id m) (messages w))))
               @ '' messages starting from ID '' @ str_int message_id),
         w\<lparr>messages := filter (\<lambda>m. msg_id m < message_id) (messages w)\<rparr>))
   \<and> (filter (\<lambda>m. message_id \<le> msg_id m) (messages w) = [] \<longrightarrow>
      delete_message_and_following message_id w = (Inl (HTTPException 404 ''Message not found''), w))
   \<and> delete_message_and_following message_id (snd (delete_message_and_following message_id w))
       = (Inl (HTTPException 404 ''Message not found''), snd (delete_message_and_following message_id w))"
proof -
  have gone: "filter (\<lambda>m. message_id \<le> msg_id m) (filter (\<lambda>m. msg_id m < message_id) rows) = []"
    for rows :: "Message list"
    by (induction rows) auto
  have again: "filter (\<lambda>m. message_id \<le> msg_id m)
                 (messages (snd (delete_message_and_following message_id w))) = []"
    by (simp add: delete_message_and_following_eq gone)
  show ?thesis
    using again by (simp add: delete_message_and_following_eq [of message_id "snd _"])
       (simp add: delete_message_and_following_eq)
qed

theorem delete_message_and_following_cascade_witness:
  "filter (\<lambda>m. 3 \<le> msg_id m) (messages five_world) \<noteq> []
   \<and> delete_message_and_following 3 five_world =
       (Inr ''Deleted 3 messages starting from ID 3'', five_world\<lparr>messages := [row 1, row 2]\<rparr>)
   \<and> filter (\<lambda>m. 3 \<le> msg_id m) (messages (five_world\<lparr>messages := [row 1, row 2]\<rparr>)) = []
   \<and> delete_message_and_following 3 (five_world\<lparr>messages := [row 1, row 2]\<rparr>) =
       (Inl (HTTPException 404 ''Message not found''), five_world\<lparr>messages := [row 1, row 2]\<rparr>)"
  using delete_message_and_following_cascade [of 3 five_world]
        delete_message_and_following_cascade [of 3 "five_world\<lparr>messages := [row 1, row 2]\<rparr>"]
  by (simp add: five_world_def row_def str_int_def)

section \<open>Editing a message\<close>

text \<open>
  C5 as it holds: \<open>edit_message\<close> always invokes the generator on the new content,
  and its outcome does not depend on the cache.  When the generator returns a response,
  an existing id gets the new content and that response, and a missing id is a 404;
  when the generator fails, the request ends in the generator's error and the table is
  unchanged, whether the id exists or not.
\<close>

theorem edit_message_regenerates:
  "generated (snd (edit_message e message_id new_content w)) = generated w @ [new_content]
   \<and> edit_message e message_id new_content (w\<lparr>redis_store := store\<rparr>)
       = (fst (edit_message e message_id new_content w),
          (snd (edit_message e message_id new_content w))\<lparr>redis_store := store\<rparr>)
   \<and> (generate_response e new_content = Inr response \<longrightarrow>
        (message_id \<in> set (map msg_id (messages w)) \<longrightarrow>
           fst (edit_message e message_id new_content w)
             = Inr \<lparr>msg_id = message_id, msg_content = new_content, msg_response = response\<rparr>
           \<and> messages (snd (edit_message e message_id new_content w))
             = map (\<lambda>x. if msg_id x = message_id
                        then \<lparr>msg_id = message_id, msg_content = new_content, msg_response = response\<rparr>
                        else x) (messages w))
        \<and> (message_id \<notin> set (map msg_id (messages w)) \<longrightarrow>
           fst (edit_message e message_id new_content w) = Inl (HTTPException 404 ''Message not found'')
           \<and> messages (snd (edit_message e message_id new_content w)) = messages w))
   \<and> (generate_response e new_content = Inl err \<longrightarrow>
        fst (edit_message e message_id new_content w) = Inl err
        \<and> messages (snd (edit_message e message_id new_content w)) = messages w)"
  by (simp add: edit_message_eq split: sum.splits)

theorem edit_message_regenerates_witness:
  "generate_response echo_env ''new text'' = Inr ''Re: new text''
   \<and> 2 \<in> set (map msg_id (messages five_world))
   \<and> fst (edit_message echo_env 2 ''new text'' five_world)
       = Inr \<lparr>msg_id = 2, msg_content = ''new text'', msg_response = ''Re: new text''\<rparr>
   \<and> messages (snd (edit_message echo_env 2 ''new text'' five_world))
       = [row 1, \<lparr>msg_id = 2, msg_content = ''new text'', msg_response = ''Re: new text''\<rparr>,
          row 3, row 4, row 5]
   \<and> 7 \<notin> set (map msg_id (messages five_world))
   \<and> fst (edit_message echo_env 7 ''new text'' five_world) = Inl (HTTPException 404 ''Message not found'')
   \<and> generate_response failing_env ''new text'' = Inl OpenAIError
   \<and> fst (edit_message failing_env 2 ''new text'' five_world) = Inl OpenAIError"
proof -
  have gen: "generate_response echo_env ''new text'' = Inr ''Re: new text''"
    and fails: "generate_response failing_env ''new text'' = Inl OpenAIError"
    by (simp_all add: example_defs generate_response_def strip_def isspace_def)
  have ids: "2 \<in> set (map msg_id (messages five_world))" "7 \<notin> set (map msg_id (messages five_world))"
    by (simp_all add: five_world_def row_def)
  from edit_message_regenerates [of echo_env 2 "''new text''" five_world Map.empty "''Re: new text''" OpenAIError]
       gen ids(1)
  have found: "fst (edit_message echo_env 2 ''new text'' five_world)
       = Inr \<lparr>msg_id = 2, msg_content = ''new text'', msg_response = ''Re: new text''\<rparr>
     \<and> messages (snd (edit_message echo_env 2 ''new text'' five_world))
       = map (\<lambda>x. if msg_id x = 2
                  then \<lparr>msg_id = 2, msg_content = ''new text'', msg_response = ''Re: new text''\<rparr>
                  else x) (messages five_world)"
    by blast
  from edit_message_regenerates [of echo_env 7 "''new text''" five_world Map.empty "''Re: new text''" OpenAIError]
       gen ids(2)
  have missing: "fst (edit_message echo_env 7 ''new text'' five_world)
       = Inl (HTTPException 404 ''Message not found'')"
    by blast
  from edit_message_regenerates [of failing_env 2 "''new text''" five_world Map.empty "''Re: new text''" OpenAIError]
       fails
  have failed: "fst (edit_message failing_env 2 ''new text'' five_world) = Inl OpenAIError"
    by blast
  have "map (\<lambda>x. if msg_id x = 2
                  then \<lparr>msg_id = 2, msg_content = ''new text'', msg_response = ''Re: new text''\<rparr>
                  else x) (messages five_world)
        = [row 1, \<lparr>msg_id = 2, msg_content = ''new text'', msg_response = ''Re: new text''\<rparr>,
           row 3, row 4, row 5]"
    by (simp add: five_world_def row_def)
  with found missing failed gen fails ids show ?thesis
    by simp
qed

text \<open>
  C5 fails as stated for a missing id: the generator runs before the lookup, so when
  it fails the request ends in its error and not in the 404.
\<close>

theorem edit_message_regenerates_counterexample:
  "7 \<notin> set (map msg_id (messages five_world))
   \<and> fst (edit_message failing_env 7 ''new text'' five_world) = Inl OpenAIError
   \<and> fst (edit_message failing_env 7 ''new text'' five_world) \<noteq> Inl (HTTPException 404 ''Message not found'')"
  by (simp add: edit_message_def generate_response_def example_defs five_world_def row_def)

text \<open>
  C7: \<open>edit_message\<close> and \<open>delete_message_and_following\<close> leave the cache as it was,
  and neither reads it: with any other cache contents they return the same result and
  make the same change to the rest of the state.
\<close>

theorem cache_untouched_by_edit_and_delete:
  "redis_store (snd (edit_message e message_id new_content w)) = redis_store w
   \<and> redis_store (snd (delete_message_and_following message_id w)) = redis_store w
   \<and> edit_message e message_id new_content (w\<lparr>redis_store := store\<rparr>)
       = (fst (edit_message e message_id new_content w),
          (snd (edit_message e message_id new_content w))\<lparr>redis_store := store\<rparr>)
   \<and> delete_message_and_following message_id (w\<lparr>redis_store := store\<rparr>)
       = (fst (delete_message_and_following message_id w),
          (snd (delete_message_and_following message_id w))\<lparr>redis_store := store\<rparr>)"
  by (simp add: edit_message_eq delete_message_and_following_eq split: sum.splits)

section \<open>Listing messages\<close>



end
